theory Spec2Isabelle
  imports Main "HOL-Library.AList"
begin

section \<open>Voice agent: call sessions, media streams and webhook handlers\<close>

text \<open>
  A shallow embedding of \<^verbatim>\<open>index-websocket.js\<close> (and of \<^verbatim>\<open>index.js\<close>, whose
  \<^verbatim>\<open>VoiceAgent.handleIncoming\<close>, \<^verbatim>\<open>VoiceAgent.endCall\<close> and HTTP routes are the same
  text without the media-stream parts).

  Conventions.
  \<^item> A field read from a request body is a \<open>string option\<close>: \<open>None\<close> is JavaScript's
    \<^verbatim>\<open>undefined\<close> (the field is absent), \<open>Some s\<close> is the string the body parser
    delivers. The provider posts form-encoded bodies, whose values are strings.
  \<^item> A JavaScript \<^verbatim>\<open>Map\<close> is an association list in insertion order: \<^verbatim>\<open>set\<close> on a
    key that is present replaces the value in place, on a new key it appends;
    \<^verbatim>\<open>delete\<close> removes the entry. These are \<^const>\<open>AList.update\<close> and
    \<^const>\<open>AList.delete\<close>.
  \<^item> A string is a list of the 8-bit characters of HOL; JavaScript characters beyond that
    range are outside the model.
  \<^item> \<^verbatim>\<open>new Date()\<close> is a clock reading passed to the operation as \<open>now\<close>.
  \<^item> A WebSocket object is a handle (a number); the calls made on it
    (\<^verbatim>\<open>close()\<close>, \<^verbatim>\<open>send()\<close>, \<^verbatim>\<open>destroy()\<close> on its socket) are recorded in the state
    in the order they happen, as is every line written to the console.
\<close>

subsection \<open>Data\<close>

type_synonym call_sid = "string option"
type_synonym timestamp = nat
type_synonym conn = nat

text \<open>The object stored by \<^verbatim>\<open>handleIncoming\<close>: \<^verbatim>\<open>{ from, to, startTime, active }\<close>.\<close>

record call_session =
  sess_from :: "string option"
  sess_to :: "string option"
  sess_startTime :: timestamp
  active :: bool

text \<open>
  The object stored by \<^verbatim>\<open>registerMediaStream\<close>:
  \<^verbatim>\<open>{ websocket, startTime, audioBuffer }\<close>. The \<open>websocket\<close> field is an option
  because \<^verbatim>\<open>closeMediaStream\<close> tests it for truthiness; a frame's payload is an
  option because \<^verbatim>\<open>data.media?.payload\<close> may be \<^verbatim>\<open>undefined\<close>.
\<close>

record media_stream =
  websocket :: "conn option"
  startTime :: timestamp
  audioBuffer :: "string option list"

text \<open>Messages sent on a WebSocket by the server: only the acknowledgment
  \<^verbatim>\<open>{ event: 'connected', callSid }\<close>.\<close>

datatype ws_out = Connected call_sid

text \<open>
  The \<^verbatim>\<open>VoiceAgent\<close> instance (\<open>callSessions\<close>, \<open>mediaStreams\<close>) together with the
  observable effects of the handlers.
\<close>

record server =
  callSessions :: "(call_sid \<times> call_session) list"
  mediaStreams :: "(call_sid \<times> media_stream) list"
  closeCalls :: "conn list"
  sentMessages :: "(conn \<times> ws_out) list"
  destroyedSockets :: "conn list"
  console :: "string list"

definition init_server :: server where
  "init_server = \<lparr> callSessions = [], mediaStreams = [], closeCalls = [],
     sentMessages = [], destroyedSockets = [], console = [] \<rparr>"

text \<open>Template-literal interpolation \<^verbatim>\<open>${x}\<close> of a string or of \<^verbatim>\<open>undefined\<close>.\<close>

fun js_str :: "string option \<Rightarrow> string" where
  "js_str None = ''undefined''"
| "js_str (Some s) = s"

text \<open>Truthiness of a string or \<^verbatim>\<open>undefined\<close>: \<^verbatim>\<open>undefined\<close> and \<^verbatim>\<open>''\<close> are falsy.\<close>

fun truthy :: "string option \<Rightarrow> bool" where
  "truthy None = False"
| "truthy (Some s) = (s \<noteq> [])"

definition console_log :: "string \<Rightarrow> server \<Rightarrow> server" where
  "console_log line s = s\<lparr> console := console s @ [line] \<rparr>"

subsection \<open>The \<^verbatim>\<open>VoiceAgent\<close> class\<close>

text \<open>\<^verbatim>\<open>handleIncoming(callSid, from, to)\<close>: an unconditional \<^verbatim>\<open>Map.set\<close>.\<close>

definition handleIncoming ::
  "call_sid \<Rightarrow> string option \<Rightarrow> string option \<Rightarrow> timestamp \<Rightarrow> server \<Rightarrow> server" where
  "handleIncoming callSid frm to now s =
     s\<lparr> callSessions := AList.update callSid
          \<lparr> sess_from = frm, sess_to = to, sess_startTime = now, active = True \<rparr>
          (callSessions s) \<rparr>"

text \<open>\<^verbatim>\<open>endCall(callSid)\<close>: clears the flag of the stored object when the key is present.\<close>

definition endCall :: "call_sid \<Rightarrow> server \<Rightarrow> server" where
  "endCall callSid s =
     (case map_of (callSessions s) callSid of
        Some session \<Rightarrow>
          s\<lparr> callSessions := AList.update callSid (session\<lparr> active := False \<rparr>) (callSessions s) \<rparr>
      | None \<Rightarrow> s)"

text \<open>\<^verbatim>\<open>registerMediaStream(callSid, websocket)\<close>: an unconditional \<^verbatim>\<open>Map.set\<close>.\<close>

definition registerMediaStream ::
  "call_sid \<Rightarrow> conn option \<Rightarrow> timestamp \<Rightarrow> server \<Rightarrow> server" where
  "registerMediaStream callSid ws now s =
     s\<lparr> mediaStreams := AList.update callSid
          \<lparr> websocket = ws, startTime = now, audioBuffer = [] \<rparr>
          (mediaStreams s) \<rparr>"

definition getMediaStream :: "call_sid \<Rightarrow> server \<Rightarrow> media_stream option" where
  "getMediaStream callSid s = map_of (mediaStreams s) callSid"

text \<open>
  \<^verbatim>\<open>closeMediaStream(callSid)\<close>: \<^verbatim>\<open>websocket.close()\<close> is called when the entry exists
  and its \<open>websocket\<close> is truthy; the entry is deleted in every case.
\<close>

definition closeMediaStream :: "call_sid \<Rightarrow> server \<Rightarrow> server" where
  "closeMediaStream callSid s =
     (let s1 = (case map_of (mediaStreams s) callSid of
                  Some stream \<Rightarrow>
                    (case websocket stream of
                       Some w \<Rightarrow> s\<lparr> closeCalls := closeCalls s @ [w] \<rparr>
                     | None \<Rightarrow> s)
                | None \<Rightarrow> s)
      in s1\<lparr> mediaStreams := AList.delete callSid (mediaStreams s1) \<rparr>)"

subsection \<open>Call-control documents\<close>

text \<open>
  The handlers build a \<^verbatim>\<open>VoiceResponse\<close> through its methods (\<^verbatim>\<open>say\<close>, \<^verbatim>\<open>hangup\<close>):
  a document is the list of verbs appended so far. \<open>Say text voice\<close> is
  \<^verbatim>\<open>twiml.say(text, { voice })\<close>.
\<close>

datatype verb = Say string string | Hangup

type_synonym twiml = "verb list"

text \<open>
  Modelled from the spec: the library that implements \<^verbatim>\<open>VoiceResponse\<close> (its methods
  \<^verbatim>\<open>say\<close>, \<^verbatim>\<open>hangup\<close> and \<^verbatim>\<open>toString\<close>) is the provider's and is not among the
  sources. The spec asks that the document be built through a document model whose
  serializer escapes the echoed transcript and keeps the document well-formed. The
  details below are the library's behaviour:
  \<^item> \<^verbatim>\<open>say\<close> refuses, by throwing, a text holding a character that XML 1.0 forbids: a
    control character other than tab, line feed and carriage return;
  \<^item> called with a string as first argument, \<^verbatim>\<open>say\<close> takes it as the message and
    gives the element no attribute;
  \<^item> in text content \<open>&\<close>, \<open><\<close>, \<open>>\<close> and carriage return are written as entities,
    every other character as it is.
\<close>

definition xml_illegal_chars :: string where
  "xml_illegal_chars =
     [CHR 0x00, CHR 0x01, CHR 0x02, CHR 0x03, CHR 0x04, CHR 0x05, CHR 0x06, CHR 0x07, CHR 0x08,
      CHR 0x0B, CHR 0x0C,
      CHR 0x0E, CHR 0x0F, CHR 0x10, CHR 0x11, CHR 0x12, CHR 0x13, CHR 0x14, CHR 0x15, CHR 0x16,
      CHR 0x17, CHR 0x18, CHR 0x19, CHR 0x1A, CHR 0x1B, CHR 0x1C, CHR 0x1D, CHR 0x1E, CHR 0x1F]"

definition xml_legal_char :: "char \<Rightarrow> bool" where
  "xml_legal_char c = (c \<notin> set xml_illegal_chars)"

text \<open>The error thrown by the library for a text it refuses.\<close>

datatype js_error = InvalidCharacter string

text \<open>
  The calls on the \<^verbatim>\<open>VoiceResponse\<close> are made in the order of the list: the first
  \<^verbatim>\<open>say\<close> whose text is refused throws, and nothing after it is run.
\<close>

fun first_refused :: "twiml \<Rightarrow> js_error option" where
  "first_refused [] = None"
| "first_refused (Say text voice # doc) =
     (if list_all xml_legal_char text then first_refused doc
      else Some (InvalidCharacter text))"
| "first_refused (Hangup # doc) = first_refused doc"

definition xml_escape_char :: "char \<Rightarrow> string" where
  "xml_escape_char c =
     (if c = CHR ''&'' then ''&amp;''
      else if c = CHR ''<'' then ''&lt;''
      else if c = CHR ''>'' then ''&gt;''
      else if c = CHR 0x0D then ''&#xD;''
      else [c])"

definition xml_escape :: "string \<Rightarrow> string" where
  "xml_escape text = concat (map xml_escape_char text)"

fun render_verb :: "verb \<Rightarrow> string" where
  "render_verb (Say text voice) = ''<Say>'' @ xml_escape text @ ''</Say>''"
| "render_verb Hangup = ''<Hangup/>''"

definition xml_declaration :: string where
  "xml_declaration =
     ''<?xml version='' @ [CHR 0x22] @ ''1.0'' @ [CHR 0x22]
       @ '' encoding='' @ [CHR 0x22] @ ''UTF-8'' @ [CHR 0x22] @ ''?>''"

definition toString :: "twiml \<Rightarrow> string" where
  "toString doc = xml_declaration @ ''<Response>'' @ concat (map render_verb doc) @ ''</Response>''"

subsection \<open>Reading a document\<close>

text \<open>
  What it means for a body to be a well-formed call-control document, as a reader of
  the fragment of XML these documents use. It is not part of the program: it states the
  property asked of the serializer's output. The body is cut into tags and runs of
  character data; character data may hold \<open>&\<close> only as the start of one of the
  entities below and may hold neither \<open><\<close> nor a character that XML forbids; the tags must be the declaration, the root
  element and, inside it, \<open>Say\<close> elements with character data and empty \<open>Hangup\<close>
  elements. The reader returns the elements with their text decoded.
\<close>

datatype token = Tag string | Chars string

definition emit :: "string \<Rightarrow> token list \<Rightarrow> token list" where
  "emit buf ts = (if buf = [] then ts else Chars buf # ts)"

fun tokenize :: "bool \<Rightarrow> string \<Rightarrow> string \<Rightarrow> token list option" where
  "tokenize in_tag buf [] = (if in_tag then None else Some (emit buf []))"
| "tokenize in_tag buf (c # cs) =
     (if in_tag then
        (if c = CHR ''>'' then map_option (Cons (Tag buf)) (tokenize False [] cs)
         else if c = CHR ''<'' then None
         else tokenize True (buf @ [c]) cs)
      else
        (if c = CHR ''<'' then map_option (emit buf) (tokenize True [] cs)
         else tokenize False (buf @ [c]) cs))"

definition entity_char :: "string \<Rightarrow> char option" where
  "entity_char name =
     (if name = ''amp'' then Some (CHR ''&'')
      else if name = ''lt'' then Some (CHR ''<'')
      else if name = ''gt'' then Some (CHR ''>'')
      else if name = ''quot'' then Some (CHR 0x22)
      else if name = ''apos'' then Some (CHR 0x27)
      else if name = ''#xD'' then Some (CHR 0x0D)
      else None)"

text \<open>\<open>decode entity cs\<close>: \<open>entity\<close> is \<open>Some name\<close> while the name of an entity is
  being read, \<open>None\<close> otherwise.\<close>

fun decode :: "string option \<Rightarrow> string \<Rightarrow> string option" where
  "decode None [] = Some []"
| "decode (Some name) [] = None"
| "decode None (c # cs) =
     (if c = CHR ''<'' \<or> \<not> xml_legal_char c then None
      else if c = CHR ''&'' then decode (Some []) cs
      else map_option (Cons c) (decode None cs))"
| "decode (Some name) (c # cs) =
     (if c = CHR '';'' then
        (case entity_char name of
           Some x \<Rightarrow> map_option (Cons x) (decode None cs)
         | None \<Rightarrow> None)
      else decode (Some (name @ [c])) cs)"

datatype element = SayElement string | HangupElement

fun read_elements :: "token list \<Rightarrow> element list option" where
  "read_elements [] = None"
| "read_elements (Chars x # ts) = None"
| "read_elements (Tag n # ts) =
     (if n = ''/Response'' then (if ts = [] then Some [] else None)
      else if n = ''Hangup/'' then map_option (Cons HangupElement) (read_elements ts)
      else if n = ''Say'' then
        (case ts of
           Chars x # Tag m # ts' \<Rightarrow>
             (if m = ''/Say'' then
                (case decode None x of
                   Some text \<Rightarrow> map_option (Cons (SayElement text)) (read_elements ts')
                 | None \<Rightarrow> None)
              else None)
         | _ \<Rightarrow> None)
      else None)"

definition read_document :: "string \<Rightarrow> element list option" where
  "read_document body =
     (case tokenize False [] body of
        Some (Tag d # Tag r # ts) \<Rightarrow>
          (if d = ''?xml version='' @ [CHR 0x22] @ ''1.0'' @ [CHR 0x22]
                    @ '' encoding='' @ [CHR 0x22] @ ''UTF-8'' @ [CHR 0x22] @ ''?''
              \<and> r = ''Response''
           then read_elements ts else None)
      | _ \<Rightarrow> None)"

subsection \<open>HTTP routes\<close>

record http_response =
  status :: nat
  contentType :: "string option"
  body :: string

text \<open>\<^verbatim>\<open>POST /voice/incoming\<close>, as far as the server state goes: the log line and
  \<^verbatim>\<open>handleIncoming\<close>.\<close>

definition voice_incoming ::
  "call_sid \<Rightarrow> string option \<Rightarrow> string option \<Rightarrow> timestamp \<Rightarrow> server \<Rightarrow> server" where
  "voice_incoming CallSid From To now s =
     handleIncoming CallSid From To now
       (console_log (''Incoming call - CallSid: '' @ js_str CallSid @ '', From: '' @ js_str From
                       @ '', To: '' @ js_str To) s)"

text \<open>
  \<^verbatim>\<open>POST /voice/handle-input\<close>. The document: the three-way branch on the truthiness
  of \<^verbatim>\<open>SpeechResult\<close> and \<^verbatim>\<open>Digits\<close>, then \<^verbatim>\<open>twiml.hangup()\<close>.
\<close>

definition handle_input_twiml :: "string option \<Rightarrow> string option \<Rightarrow> twiml" where
  "handle_input_twiml SpeechResult Digits =
     (if truthy SpeechResult then [Say (''I understood: '' @ js_str SpeechResult) ''Polly.Amy'']
      else if truthy Digits then [Say (''You pressed: '' @ js_str Digits) ''Polly.Amy'']
      else [Say ''No input received. Goodbye!'' ''Polly.Amy''])
     @ [Hangup]"

text \<open>
  The error-handling middleware, which Express runs when a route handler throws:
  \<^verbatim>\<open>console.error('Error:', err)\<close> and
  \<^verbatim>\<open>res.status(500).json({ error: 'Internal server error', message: err.message })\<close>.
  The message is the library's text for the error.
\<close>

record error_reply =
  err_status :: nat
  err_error :: string
  err_message :: js_error

definition error_middleware :: "js_error \<Rightarrow> server \<Rightarrow> error_reply \<times> server" where
  "error_middleware err s =
     (\<lparr> err_status = 500, err_error = ''Internal server error'', err_message = err \<rparr>,
      console_log ''Error:'' s)"

text \<open>
  The route: the log line, the document, and the reply. When the library refuses a text
  the handler throws before it sets any header and the middleware answers (\<open>Inl\<close>);
  otherwise the reply is sent with status 200 and the content type \<^verbatim>\<open>text/xml\<close>, to
  which Express adds the character set of a string body.
\<close>

definition voice_handle_input ::
  "call_sid \<Rightarrow> string option \<Rightarrow> string option \<Rightarrow> server
     \<Rightarrow> (error_reply + http_response) \<times> server" where
  "voice_handle_input CallSid SpeechResult Digits s =
     (let s1 = console_log (''Input - CallSid: '' @ js_str CallSid @ '', Speech: ''
                 @ js_str SpeechResult @ '', Digits: '' @ js_str Digits) s
      in case first_refused (handle_input_twiml SpeechResult Digits) of
           Some err \<Rightarrow> (case error_middleware err s1 of (reply, s2) \<Rightarrow> (Inl reply, s2))
         | None \<Rightarrow>
             (Inr \<lparr> status = 200, contentType = Some ''text/xml; charset=utf-8'',
                    body = toString (handle_input_twiml SpeechResult Digits) \<rparr>,
              s1))"

text \<open>\<^verbatim>\<open>POST /voice/end-call\<close>. The text said is fixed and has no character that the
  library refuses.\<close>

definition end_call_twiml :: twiml where
  "end_call_twiml = [Say ''Thank you for calling. Goodbye!'' ''Polly.Amy'', Hangup]"

definition voice_end_call :: "call_sid \<Rightarrow> server \<Rightarrow> http_response \<times> server" where
  "voice_end_call CallSid s =
     (\<lparr> status = 200, contentType = Some ''text/xml; charset=utf-8'',
        body = toString end_call_twiml \<rparr>,
      closeMediaStream CallSid
        (endCall CallSid (console_log (''Ending call - CallSid: '' @ js_str CallSid) s)))"

text \<open>\<^verbatim>\<open>POST /voice/status-callback\<close>: a log line and \<^verbatim>\<open>res.status(200).end()\<close>.\<close>

definition voice_status_callback ::
  "call_sid \<Rightarrow> string option \<Rightarrow> server \<Rightarrow> http_response \<times> server" where
  "voice_status_callback CallSid CallStatus s =
     (\<lparr> status = 200, contentType = None, body = [] \<rparr>,
      console_log (''Call Status - CallSid: '' @ js_str CallSid @ '', Status: ''
                     @ js_str CallStatus) s)"

text \<open>
  \<^verbatim>\<open>GET /voice/calls\<close>: the entries of \<open>callSessions\<close>, filtered on \<open>session.active\<close>,
  each mapped to \<^verbatim>\<open>{ callSid, ...session }\<close>; the JSON answer carries their number and
  the list.
\<close>

record calls_listing =
  activeCalls :: nat
  calls :: "(call_sid \<times> call_session) list"

definition active_entries :: "server \<Rightarrow> (call_sid \<times> call_session) list" where
  "active_entries s = filter (\<lambda>(_, session). active session) (callSessions s)"

definition voice_calls :: "server \<Rightarrow> calls_listing \<times> server" where
  "voice_calls s =
     (\<lparr> activeCalls = length (active_entries s), calls = active_entries s \<rparr>, s)"

subsection \<open>WebSocket server\<close>

text \<open>
  The result of \<^verbatim>\<open>JSON.parse(message)\<close> as the handler reads it: \<open>None\<close> when parsing
  (or reading a property of the parsed value) throws, otherwise \<^verbatim>\<open>data.event\<close> and
  \<^verbatim>\<open>data.media?.payload\<close>.
\<close>

record ws_data =
  event :: "string option"
  payload :: "string option"

text \<open>The \<^verbatim>\<open>'message'\<close> handler installed for the connection of \<open>callSid\<close>.\<close>

definition on_message :: "call_sid \<Rightarrow> ws_data option \<Rightarrow> server \<Rightarrow> server" where
  "on_message callSid message s =
     (case message of
        None \<Rightarrow> console_log ''WebSocket message error:'' s
      | Some data \<Rightarrow>
          if event data = Some ''start'' then
            console_log (''Media stream started: '' @ js_str callSid) s
          else if event data = Some ''media'' then
            (case getMediaStream callSid s of
               Some stream \<Rightarrow>
                 s\<lparr> mediaStreams := AList.update callSid
                      (stream\<lparr> audioBuffer := audioBuffer stream @ [payload data] \<rparr>)
                      (mediaStreams s) \<rparr>
             | None \<Rightarrow> s)
          else if event data = Some ''stop'' then
            closeMediaStream callSid
              (console_log (''Media stream stopped: '' @ js_str callSid) s)
          else s)"

definition on_error :: "call_sid \<Rightarrow> server \<Rightarrow> server" where
  "on_error callSid s = console_log (''WebSocket error for '' @ js_str callSid @ '':'') s"

definition on_close :: "call_sid \<Rightarrow> server \<Rightarrow> server" where
  "on_close callSid s =
     closeMediaStream callSid
       (console_log (''WebSocket closed for media stream: '' @ js_str callSid) s)"

text \<open>The \<^verbatim>\<open>'connection'\<close> handler: log, register, send the acknowledgment.\<close>

definition on_connection :: "call_sid \<Rightarrow> conn \<Rightarrow> timestamp \<Rightarrow> server \<Rightarrow> server" where
  "on_connection callSid ws now s =
     (let s1 = registerMediaStream callSid (Some ws) now
                 (console_log (''WebSocket connected for media stream: '' @ js_str callSid) s)
      in s1\<lparr> sentMessages := sentMessages s1 @ [(ws, Connected callSid)] \<rparr>)"

text \<open>
  The \<^verbatim>\<open>'upgrade'\<close> handler. \<^verbatim>\<open>pathname.match(/^\/media\/([A-Za-z0-9]+)$/)\<close>: the whole
  of \<^verbatim>\<open>request.url\<close> is \<^verbatim>\<open>/media/\<close> followed by one or more characters of the class;
  the result is the captured group, or \<open>None\<close> for \<^verbatim>\<open>null\<close>.
\<close>

definition alnum_chars :: string where
  "alnum_chars = ''ABCDEFGHIJKLMNOPQRSTUVWXYZabcdefghijklmnopqrstuvwxyz0123456789''"

definition is_alnum :: "char \<Rightarrow> bool" where
  "is_alnum c = (c \<in> set alnum_chars)"

definition match_media :: "string \<Rightarrow> string option" where
  "match_media pathname =
     (if take 7 pathname = ''/media/'' \<and> drop 7 pathname \<noteq> []
         \<and> list_all is_alnum (drop 7 pathname)
      then Some (drop 7 pathname) else None)"

text \<open>
  A match hands the socket to \<^verbatim>\<open>wss.handleUpgrade\<close>, whose callback emits
  \<^verbatim>\<open>'connection'\<close> with the WebSocket made from it (the same handle here); no match
  destroys the socket.
\<close>

definition on_upgrade :: "string \<Rightarrow> conn \<Rightarrow> timestamp \<Rightarrow> server \<Rightarrow> server" where
  "on_upgrade url socket now s =
     (case match_media url of
        Some callSid \<Rightarrow> on_connection (Some callSid) socket now s
      | None \<Rightarrow> s\<lparr> destroyedSockets := destroyedSockets s @ [socket] \<rparr>)"

subsection \<open>Runs of the server\<close>

text \<open>One event handled by the server, with the clock reading at that moment.\<close>

datatype event =
    Incoming call_sid "string option" "string option"
  | HandleInput call_sid "string option" "string option"
  | EndCall call_sid
  | StatusCallback call_sid "string option"
  | ListCalls
  | Upgrade string conn
  | WsMessage call_sid "ws_data option"
  | WsError call_sid
  | WsClose call_sid

fun handle :: "timestamp \<Rightarrow> event \<Rightarrow> server \<Rightarrow> server" where
  "handle now (Incoming c f t) s = voice_incoming c f t now s"
| "handle now (HandleInput c sp d) s = snd (voice_handle_input c sp d s)"
| "handle now (EndCall c) s = snd (voice_end_call c s)"
| "handle now (StatusCallback c st) s = snd (voice_status_callback c st s)"
| "handle now ListCalls s = snd (voice_calls s)"
| "handle now (Upgrade url sock) s = on_upgrade url sock now s"
| "handle now (WsMessage c m) s = on_message c m s"
| "handle now (WsError c) s = on_error c s"
| "handle now (WsClose c) s = on_close c s"

inductive reachable :: "server \<Rightarrow> bool" where
  reachable_init: "reachable init_server"
| reachable_step: "reachable s \<Longrightarrow> reachable (handle now e s)"

text \<open>A run: the events handled one after the other, each with its clock reading.\<close>

fun run :: "(timestamp \<times> event) list \<Rightarrow> server \<Rightarrow> server" where
  "run [] s = s"
| "run ((now, e) # es) s = run es (handle now e s)"

text \<open>
  The three places that call \<^verbatim>\<open>closeMediaStream\<close>: the \<^verbatim>\<open>stop\<close> message, the
  \<^verbatim>\<open>'close'\<close> notification of the connection, and the end-call route.
\<close>

datatype trigger = StopEvent | CloseNotification | EndCallRequest

fun teardown_event :: "call_sid \<Rightarrow> trigger \<Rightarrow> event" where
  "teardown_event c StopEvent = WsMessage c (Some \<lparr> event = Some ''stop'', payload = None \<rparr>)"
| "teardown_event c CloseNotification = WsClose c"
| "teardown_event c EndCallRequest = EndCall c"

section \<open>Properties\<close>

subsection \<open>Auxiliary facts\<close>

lemma filter_key_absent:
  "k \<notin> fst ` set al \<Longrightarrow> filter (\<lambda>e. fst e = k) al = []"
  by (induction al) auto

lemma filter_key_distinct:
  "distinct (map fst al) \<Longrightarrow> map_of al k = Some v \<Longrightarrow> length (filter (\<lambda>e. fst e = k) al) = 1"
  by (induction al) (auto simp: filter_key_absent split: if_splits)

lemma filter_key_le1:
  "distinct (map fst al) \<Longrightarrow> length (filter (\<lambda>e. fst e = k) al) \<le> 1"
  by (induction al) (auto simp: filter_key_absent)

lemma closeMediaStream_callSessions [simp]:
  "callSessions (closeMediaStream c s) = callSessions s"
  by (simp add: closeMediaStream_def Let_def split: option.splits)

lemma closeMediaStream_mediaStreams [simp]:
  "mediaStreams (closeMediaStream c s) = AList.delete c (mediaStreams s)"
  by (simp add: closeMediaStream_def Let_def split: option.splits)

lemma closeMediaStream_console [simp]:
  "console (closeMediaStream c s) = console s"
  by (simp add: closeMediaStream_def Let_def split: option.splits)

lemma closeMediaStream_live:
  "map_of (mediaStreams s) c = Some stream \<Longrightarrow> websocket stream = Some w \<Longrightarrow>
   closeCalls (closeMediaStream c s) = closeCalls s @ [w]"
  by (simp add: closeMediaStream_def Let_def)

lemma closeMediaStream_absent:
  "map_of (mediaStreams s) c = None \<Longrightarrow> closeCalls (closeMediaStream c s) = closeCalls s"
  by (simp add: closeMediaStream_def Let_def)

lemma endCall_fields [simp]:
  "mediaStreams (endCall c s) = mediaStreams s"
  "closeCalls (endCall c s) = closeCalls s"
  by (simp_all add: endCall_def split: option.splits)

lemma console_log_fields [simp]:
  "callSessions (console_log l s) = callSessions s"
  "mediaStreams (console_log l s) = mediaStreams s"
  "closeCalls (console_log l s) = closeCalls s"
  "sentMessages (console_log l s) = sentMessages s"
  "destroyedSockets (console_log l s) = destroyedSockets s"
  "console (console_log l s) = console s @ [l]"
  by (simp_all add: console_log_def)

lemma handle_distinct_calls:
  "distinct (map fst (callSessions s)) \<Longrightarrow> distinct (map fst (callSessions (handle now e s)))"
  by (cases e)
     (auto simp: voice_incoming_def handleIncoming_def voice_handle_input_def voice_end_call_def
        endCall_def voice_status_callback_def voice_calls_def on_upgrade_def on_connection_def
        registerMediaStream_def on_message_def on_error_def on_close_def getMediaStream_def
        error_middleware_def Let_def distinct_update split: option.splits)

lemma handle_distinct_streams:
  "distinct (map fst (mediaStreams s)) \<Longrightarrow> distinct (map fst (mediaStreams (handle now e s)))"
  by (cases e)
     (auto simp: voice_incoming_def handleIncoming_def voice_handle_input_def voice_end_call_def
        voice_status_callback_def voice_calls_def on_upgrade_def on_connection_def
        registerMediaStream_def on_message_def on_error_def on_close_def getMediaStream_def
        error_middleware_def Let_def distinct_update distinct_delete split: option.splits)

lemma reachable_distinct:
  "reachable s \<Longrightarrow> distinct (map fst (callSessions s)) \<and> distinct (map fst (mediaStreams s))"
  by (induction rule: reachable.induct)
     (simp_all add: init_server_def handle_distinct_calls handle_distinct_streams)

lemma teardown_live:
  assumes "map_of (mediaStreams s) c = Some stream" "websocket stream = Some w"
  shows "closeCalls (handle now (teardown_event c t) s) = closeCalls s @ [w]
       \<and> map_of (mediaStreams (handle now (teardown_event c t) s)) c = None"
  using assms
  by (cases t)
     (simp_all add: on_message_def on_close_def voice_end_call_def closeMediaStream_live
        delete_conv')

lemma teardown_absent:
  assumes "map_of (mediaStreams s) c = None"
  shows "closeCalls (handle now (teardown_event c t) s) = closeCalls s
       \<and> map_of (mediaStreams (handle now (teardown_event c t) s)) c = None"
  using assms
  by (cases t)
     (simp_all add: on_message_def on_close_def voice_end_call_def closeMediaStream_absent
        delete_conv')

lemma teardowns_absent:
  "map_of (mediaStreams s) c = None \<Longrightarrow>
   closeCalls (run (map (\<lambda>(now, t). (now, teardown_event c t)) ts) s) = closeCalls s
   \<and> map_of (mediaStreams (run (map (\<lambda>(now, t). (now, teardown_event c t)) ts) s)) c = None"
proof (induction ts arbitrary: s)
  case Nil
  then show ?case by simp
next
  case (Cons a ts)
  obtain now t where a: "a = (now, t)" by (cases a)
  from teardown_absent [OF Cons.prems, of now t]
  have step: "closeCalls (handle now (teardown_event c t) s) = closeCalls s"
    and gone: "map_of (mediaStreams (handle now (teardown_event c t) s)) c = None"
    by simp_all
  from Cons.IH [OF gone] step show ?case by (simp add: a)
qed


subsection \<open>C3: teardown of a media stream\<close>

text \<open>
  C3. Teardown of a media-stream session is idempotent. When a session with connection
  \<open>w\<close> is registered for the call identifier \<open>c\<close>, any non-empty sequence of teardown
  triggers for \<open>c\<close> (the stop event, the close notification of the connection, the
  end-call request, in any order and number) calls \<^verbatim>\<open>close()\<close> on \<open>w\<close> exactly once,
  and afterwards the registry has no entry for \<open>c\<close>.
\<close>

theorem teardown_closes_exactly_once:
  assumes live: "getMediaStream c s = Some stream" "websocket stream = Some w"
    and some: "ts \<noteq> []"
  shows "closeCalls (run (map (\<lambda>(now, t). (now, teardown_event c t)) ts) s) = closeCalls s @ [w]
       \<and> getMediaStream c (run (map (\<lambda>(now, t). (now, teardown_event c t)) ts) s) = None"
proof -
  from some obtain now t rest where ts: "ts = (now, t) # rest"
    by (cases ts) auto
  from live have m: "map_of (mediaStreams s) c = Some stream"
    by (simp add: getMediaStream_def)
  from teardown_live [OF m live(2), of now t]
  have first: "closeCalls (handle now (teardown_event c t) s) = closeCalls s @ [w]"
    and gone: "map_of (mediaStreams (handle now (teardown_event c t) s)) c = None"
    by simp_all
  from teardowns_absent [OF gone, of rest] first show ?thesis
    by (simp add: ts getMediaStream_def)
qed


theorem teardown_closes_exactly_once_witness:
  "closeCalls (run [(7, WsMessage (Some ''CA2'') (Some \<lparr> event = Some ''stop'', payload = None \<rparr>)),
                    (8, WsClose (Some ''CA2'')), (9, EndCall (Some ''CA2''))]
                 (on_upgrade ''/media/CA2'' 4 5 init_server)) = [4]
   \<and> getMediaStream (Some ''CA2'')
        (run [(7, WsMessage (Some ''CA2'') (Some \<lparr> event = Some ''stop'', payload = None \<rparr>)),
              (8, WsClose (Some ''CA2'')), (9, EndCall (Some ''CA2''))]
           (on_upgrade ''/media/CA2'' 4 5 init_server)) = None"
proof -
  have live: "getMediaStream (Some ''CA2'') (on_upgrade ''/media/CA2'' 4 5 init_server)
      = Some \<lparr> websocket = Some 4, startTime = 5, audioBuffer = [] \<rparr>"
    by (simp add: on_upgrade_def match_media_def is_alnum_def alnum_chars_def on_connection_def
        registerMediaStream_def getMediaStream_def init_server_def console_log_def Let_def)
  have ws: "websocket \<lparr> websocket = Some 4, startTime = 5, audioBuffer = [] \<rparr> = Some (4::nat)"
    by simp
  have ne: "[(7::nat, StopEvent), (8, CloseNotification), (9, EndCallRequest)] \<noteq> []"
    by simp
  have start: "closeCalls (on_upgrade ''/media/CA2'' 4 5 init_server) = []"
    by (simp add: on_upgrade_def match_media_def is_alnum_def alnum_chars_def on_connection_def
        registerMediaStream_def init_server_def console_log_def Let_def)
  from teardown_closes_exactly_once [OF live ws ne] start show ?thesis
    by simp
qed

subsection \<open>C1: registering a media stream twice\<close>

text \<open>
  C1, as stated, does not hold: \<^verbatim>\<open>registerMediaStream\<close> has no check and no failure.
  A session for \<open>CA1\<close> on connection 1 that has buffered one frame is replaced by a
  second register for \<open>CA1\<close> on connection 2: the registry then holds connection 2 and
  an empty buffer, and the first session is gone.
\<close>

theorem registerMediaStream_first_session_lost:
  "getMediaStream (Some ''CA1'')
     (on_message (Some ''CA1'') (Some \<lparr> event = Some ''media'', payload = Some ''AAAA'' \<rparr>)
        (registerMediaStream (Some ''CA1'') (Some 1) 10 init_server))
     = Some \<lparr> websocket = Some 1, startTime = 10, audioBuffer = [Some ''AAAA''] \<rparr>
   \<and> getMediaStream (Some ''CA1'')
     (registerMediaStream (Some ''CA1'') (Some 2) 20
        (on_message (Some ''CA1'') (Some \<lparr> event = Some ''media'', payload = Some ''AAAA'' \<rparr>)
           (registerMediaStream (Some ''CA1'') (Some 1) 10 init_server)))
     = Some \<lparr> websocket = Some 2, startTime = 20, audioBuffer = [] \<rparr>"
  by (simp add: getMediaStream_def on_message_def registerMediaStream_def init_server_def)

text \<open>
  C1, amended. In every reachable state a register call for \<open>c\<close> succeeds and leaves
  exactly one session for \<open>c\<close> in the registry, the fresh one (the connection handle just
  given, the clock reading, an empty audio buffer), whether a session for \<open>c\<close> was
  registered before or not; no identifier has more than one session.
\<close>

theorem registerMediaStream_replaces:
  assumes "reachable s"
  shows "getMediaStream c (registerMediaStream c ws now s)
           = Some \<lparr> websocket = ws, startTime = now, audioBuffer = [] \<rparr>
       \<and> length (filter (\<lambda>e. fst e = c) (mediaStreams (registerMediaStream c ws now s))) = 1
       \<and> (\<forall>k. length (filter (\<lambda>e. fst e = k) (mediaStreams (registerMediaStream c ws now s))) \<le> 1)"
proof -
  let ?al = "mediaStreams (registerMediaStream c ws now s)"
  from assms have "distinct (map fst (mediaStreams s))"
    by (simp add: reachable_distinct)
  then have d: "distinct (map fst ?al)"
    by (simp add: registerMediaStream_def distinct_update)
  have g: "map_of ?al c = Some \<lparr> websocket = ws, startTime = now, audioBuffer = [] \<rparr>"
    by (simp add: registerMediaStream_def update_conv')
  from filter_key_distinct [OF d g] filter_key_le1 [OF d] g show ?thesis
    by (simp add: getMediaStream_def)
qed

theorem registerMediaStream_replaces_witness:
  "getMediaStream (Some ''CA1'')
     (registerMediaStream (Some ''CA1'') (Some 2) 20
        (handle 10 (Upgrade ''/media/CA1'' 1) init_server))
     = Some \<lparr> websocket = Some 2, startTime = 20, audioBuffer = [] \<rparr>
   \<and> length (filter (\<lambda>e. fst e = Some ''CA1'')
        (mediaStreams (registerMediaStream (Some ''CA1'') (Some 2) 20
           (handle 10 (Upgrade ''/media/CA1'' 1) init_server)))) = 1"
  using registerMediaStream_replaces
    [OF reachable_step [OF reachable_init, of 10 "Upgrade ''/media/CA1'' 1"],
     of "Some ''CA1''" "Some 2" 20]
  by simp

subsection \<open>C2: a duplicate incoming-call event\<close>

text \<open>
  C2, as stated, does not hold: \<^verbatim>\<open>handleIncoming\<close> is an unconditional \<^verbatim>\<open>Map.set\<close>.
  A record for \<open>CA1\<close> created at time 10 and marked inactive is overwritten by a second
  incoming-call event for \<open>CA1\<close> at time 20: origin, destination, timestamp and active
  flag are all those of the second event.
\<close>

theorem handleIncoming_duplicate_overwrites:
  "map_of (callSessions
     (endCall (Some ''CA1'')
        (handleIncoming (Some ''CA1'') (Some ''+15551234567'') (Some ''+15555678901'') 10
           init_server))) (Some ''CA1'')
     = Some \<lparr> sess_from = Some ''+15551234567'', sess_to = Some ''+15555678901'',
              sess_startTime = 10, active = False \<rparr>
   \<and> map_of (callSessions
     (handleIncoming (Some ''CA1'') (Some ''+15550000000'') (Some ''+15559999999'') 20
        (endCall (Some ''CA1'')
           (handleIncoming (Some ''CA1'') (Some ''+15551234567'') (Some ''+15555678901'') 10
              init_server)))) (Some ''CA1'')
     = Some \<lparr> sess_from = Some ''+15550000000'', sess_to = Some ''+15559999999'',
              sess_startTime = 20, active = True \<rparr>"
  by (simp add: handleIncoming_def endCall_def init_server_def)

text \<open>
  C2, amended. In every reachable state, handling an incoming-call event for \<open>c\<close> leaves
  exactly one record for \<open>c\<close> in the store, and that record is the one built from this
  event (its origin, its destination, the current clock reading, active), whether a
  record for \<open>c\<close> existed before or not.
\<close>

theorem handleIncoming_one_fresh_record:
  assumes "reachable s"
  shows "length (filter (\<lambda>e. fst e = c) (callSessions (handleIncoming c frm to now s))) = 1
       \<and> map_of (callSessions (handleIncoming c frm to now s)) c
           = Some \<lparr> sess_from = frm, sess_to = to, sess_startTime = now, active = True \<rparr>"
proof -
  let ?al = "callSessions (handleIncoming c frm to now s)"
  from assms have "distinct (map fst (callSessions s))"
    by (simp add: reachable_distinct)
  then have d: "distinct (map fst ?al)"
    by (simp add: handleIncoming_def distinct_update)
  have g: "map_of ?al c
      = Some \<lparr> sess_from = frm, sess_to = to, sess_startTime = now, active = True \<rparr>"
    by (simp add: handleIncoming_def update_conv')
  from filter_key_distinct [OF d g] g show ?thesis by simp
qed

theorem handleIncoming_one_fresh_record_witness:
  "length (filter (\<lambda>e. fst e = Some ''CA1'')
     (callSessions (handleIncoming (Some ''CA1'') (Some ''+15550000000'') None 20
        (handle 10 (Incoming (Some ''CA1'') (Some ''+15551234567'') (Some ''+15555678901''))
           init_server)))) = 1
   \<and> map_of (callSessions (handleIncoming (Some ''CA1'') (Some ''+15550000000'') None 20
        (handle 10 (Incoming (Some ''CA1'') (Some ''+15551234567'') (Some ''+15555678901''))
           init_server))) (Some ''CA1'')
     = Some \<lparr> sess_from = Some ''+15550000000'', sess_to = None, sess_startTime = 20,
              active = True \<rparr>"
  using handleIncoming_one_fresh_record
    [OF reachable_step [OF reachable_init,
          of 10 "Incoming (Some ''CA1'') (Some ''+15551234567'') (Some ''+15555678901'')"],
     of "Some ''CA1''" "Some ''+15550000000''" None 20]
  by simp

subsection \<open>C10: an empty transcript\<close>



lemma map_of_update_keeps:
  "map_of al k \<noteq> None \<Longrightarrow> map_of (AList.update c v al) k \<noteq> None"
  by (simp add: update_conv')

lemma handle_keeps_records:
  "map_of (callSessions s) k \<noteq> None \<Longrightarrow> map_of (callSessions (handle now e s)) k \<noteq> None"
  by (cases e)
     (auto simp: voice_incoming_def handleIncoming_def voice_handle_input_def voice_end_call_def
        endCall_def voice_status_callback_def voice_calls_def on_upgrade_def on_connection_def
        registerMediaStream_def on_message_def on_error_def on_close_def getMediaStream_def
        error_middleware_def Let_def update_conv' split: option.splits)

subsection \<open>C5: the status notification\<close>

text \<open>
  C5, as stated, does not hold: the status-callback route never touches the store. After
  an incoming call \<open>CA1\<close>, a status notification \<open>completed\<close> for \<open>CA1\<close> leaves the
  record of \<open>CA1\<close> active.
\<close>

theorem status_callback_leaves_record_active:
  "map_of (callSessions (snd (voice_status_callback (Some ''CA1'') (Some ''completed'')
     (handleIncoming (Some ''CA1'') (Some ''+15551234567'') (Some ''+15555678901'') 10
        init_server)))) (Some ''CA1'')
   = Some \<lparr> sess_from = Some ''+15551234567'', sess_to = Some ''+15555678901'',
            sess_startTime = 10, active = True \<rparr>"
  by (simp add: voice_status_callback_def handleIncoming_def init_server_def)

text \<open>
  C5, amended. Processing a status notification returns an empty 200 acknowledgment (no
  content type, no body) and leaves the record store and the stream registry as they
  were; and no event handled by the server removes a record from the store.
\<close>

theorem status_callback_acknowledges_only:
  "fst (voice_status_callback c st s) = \<lparr> status = 200, contentType = None, body = [] \<rparr>
   \<and> callSessions (snd (voice_status_callback c st s)) = callSessions s
   \<and> mediaStreams (snd (voice_status_callback c st s)) = mediaStreams s
   \<and> (\<forall>now e k. map_of (callSessions s) k \<noteq> None
          \<longrightarrow> map_of (callSessions (handle now e s)) k \<noteq> None)"
  by (simp add: voice_status_callback_def handle_keeps_records)

theorem status_callback_acknowledges_only_witness:
  "body (fst (voice_status_callback (Some ''CA1'') (Some ''completed'') init_server)) = []
   \<and> status (fst (voice_status_callback (Some ''CA1'') (Some ''completed'') init_server)) = 200
   \<and> map_of (callSessions (handle 30 (EndCall (Some ''CA1''))
        (handleIncoming (Some ''CA1'') None None 10 init_server))) (Some ''CA1'') \<noteq> None"
proof -
  have present: "map_of (callSessions (handleIncoming (Some ''CA1'') None None 10 init_server))
      (Some ''CA1'') \<noteq> None"
    by (simp add: handleIncoming_def init_server_def)
  have ack: "fst (voice_status_callback (Some ''CA1'') (Some ''completed'') init_server)
      = \<lparr> status = 200, contentType = None, body = [] \<rparr>"
    using status_callback_acknowledges_only [of "Some ''CA1''" "Some ''completed''" init_server]
    by simp
  from status_callback_acknowledges_only
    [of "Some ''CA1''" "Some ''completed''"
        "handleIncoming (Some ''CA1'') None None 10 init_server"]
  have "map_of (callSessions (handle 30 (EndCall (Some ''CA1''))
        (handleIncoming (Some ''CA1'') None None 10 init_server))) (Some ''CA1'') \<noteq> None"
    using present by blast
  with ack show ?thesis by simp
qed

subsection \<open>C7: the listing of active calls\<close>

text \<open>
  C7. In every reachable state the active-calls listing holds exactly the records whose
  active flag is set: a call identifier is listed with a record if and only if the store
  maps the identifier to that record and the record is active. The count in the answer
  is the length of the list, and the state after the request is the state before it.
\<close>

theorem listing_is_exactly_the_active_records:
  assumes "reachable s"
  shows "(\<forall>k r. (k, r) \<in> set (calls (fst (voice_calls s)))
            \<longleftrightarrow> map_of (callSessions s) k = Some r \<and> active r)
       \<and> activeCalls (fst (voice_calls s)) = length (calls (fst (voice_calls s)))
       \<and> snd (voice_calls s) = s"
proof -
  from assms have "distinct (map fst (callSessions s))"
    by (simp add: reachable_distinct)
  then have "\<And>k r. map_of (callSessions s) k = Some r \<longleftrightarrow> (k, r) \<in> set (callSessions s)"
    by simp
  then show ?thesis
    by (auto simp: voice_calls_def active_entries_def)
qed

theorem listing_is_exactly_the_active_records_witness:
  "calls (fst (voice_calls
     (handle 30 (EndCall (Some ''CA1''))
       (handle 20 (Incoming (Some ''CA2'') (Some ''+15550000002'') None)
         (handle 10 (Incoming (Some ''CA1'') (Some ''+15550000001'') None) init_server)))))
   = [(Some ''CA2'', \<lparr> sess_from = Some ''+15550000002'', sess_to = None,
                        sess_startTime = 20, active = True \<rparr>)]
   \<and> (Some ''CA1'', \<lparr> sess_from = Some ''+15550000001'', sess_to = None,
                        sess_startTime = 10, active = False \<rparr>)
       \<notin> set (calls (fst (voice_calls
     (handle 30 (EndCall (Some ''CA1''))
       (handle 20 (Incoming (Some ''CA2'') (Some ''+15550000002'') None)
         (handle 10 (Incoming (Some ''CA1'') (Some ''+15550000001'') None) init_server))))))"
proof -
  let ?s = "handle 30 (EndCall (Some ''CA1''))
       (handle 20 (Incoming (Some ''CA2'') (Some ''+15550000002'') None)
         (handle 10 (Incoming (Some ''CA1'') (Some ''+15550000001'') None) init_server))"
  have r: "reachable ?s"
    by (intro reachable_step reachable_init)
  have l: "calls (fst (voice_calls ?s))
     = [(Some ''CA2'', \<lparr> sess_from = Some ''+15550000002'', sess_to = None,
                        sess_startTime = 20, active = True \<rparr>)]"
    by (simp add: voice_calls_def active_entries_def voice_end_call_def endCall_def
        voice_incoming_def handleIncoming_def init_server_def console_log_def
        closeMediaStream_def Let_def)
  from listing_is_exactly_the_active_records [OF r] l show ?thesis
    by auto
qed

subsection \<open>C8: media frames\<close>

text \<open>
  C8, as stated, does not hold in one word: a frame for an identifier with no live
  session is not logged. After connection, \<open>stop\<close> and teardown of \<open>CA2\<close>, a late media
  frame for \<open>CA2\<close> leaves the console as it was (the two lines of the connection and of
  the stop event), and the registry without a session for \<open>CA2\<close>.
\<close>

theorem late_frame_is_not_logged:
  "console (on_message (Some ''CA2'') (Some \<lparr> event = Some ''media'', payload = Some ''AAAA'' \<rparr>)
     (on_message (Some ''CA2'') (Some \<lparr> event = Some ''stop'', payload = None \<rparr>)
        (on_upgrade ''/media/CA2'' 4 5 init_server)))
   = [''WebSocket connected for media stream: CA2'', ''Media stream stopped: CA2'']
   \<and> getMediaStream (Some ''CA2'')
     (on_message (Some ''CA2'') (Some \<lparr> event = Some ''media'', payload = Some ''AAAA'' \<rparr>)
       (on_message (Some ''CA2'') (Some \<lparr> event = Some ''stop'', payload = None \<rparr>)
          (on_upgrade ''/media/CA2'' 4 5 init_server))) = None"
  by (simp add: on_message_def on_upgrade_def match_media_def is_alnum_def alnum_chars_def
      on_connection_def registerMediaStream_def getMediaStream_def init_server_def
      console_log_def closeMediaStream_def Let_def)

text \<open>
  C8, amended. For every call identifier \<open>c\<close> with no live stream session in the registry
  (including after teardown), an inbound media frame for \<open>c\<close> changes nothing at all: no
  session is created, no buffer is written, nothing is logged, no error is raised. When
  a live session exists, the payload is appended to the audio buffer of that session,
  and the sessions of the other identifiers are as before.
\<close>

theorem media_frame_appends_or_is_ignored:
  "(getMediaStream c s = None \<longrightarrow>
      on_message c (Some \<lparr> event = Some ''media'', payload = p \<rparr>) s = s)
   \<and> (\<forall>stream. getMediaStream c s = Some stream \<longrightarrow>
        getMediaStream c (on_message c (Some \<lparr> event = Some ''media'', payload = p \<rparr>) s)
          = Some (stream\<lparr> audioBuffer := audioBuffer stream @ [p] \<rparr>))
   \<and> (\<forall>k. k \<noteq> c \<longrightarrow>
        getMediaStream k (on_message c (Some \<lparr> event = Some ''media'', payload = p \<rparr>) s)
          = getMediaStream k s)"
  by (auto simp: on_message_def getMediaStream_def update_conv' split: option.splits)

theorem media_frame_appends_or_is_ignored_witness:
  "on_message (Some ''CA9'') (Some \<lparr> event = Some ''media'', payload = Some ''AAAA'' \<rparr>) init_server
     = init_server
   \<and> getMediaStream (Some ''CA2'')
       (on_message (Some ''CA2'') (Some \<lparr> event = Some ''media'', payload = Some ''AAAA'' \<rparr>)
          (registerMediaStream (Some ''CA2'') (Some 4) 5 init_server))
     = Some \<lparr> websocket = Some 4, startTime = 5, audioBuffer = [Some ''AAAA''] \<rparr>"
proof -
  have absent: "getMediaStream (Some ''CA9'') init_server = None"
    by (simp add: getMediaStream_def init_server_def)
  have live: "getMediaStream (Some ''CA2'') (registerMediaStream (Some ''CA2'') (Some 4) 5 init_server)
      = Some \<lparr> websocket = Some 4, startTime = 5, audioBuffer = [] \<rparr>"
    by (simp add: getMediaStream_def registerMediaStream_def init_server_def)
  from media_frame_appends_or_is_ignored [of "Some ''CA9''" init_server "Some ''AAAA''"] absent
  have a: "on_message (Some ''CA9'') (Some \<lparr> event = Some ''media'', payload = Some ''AAAA'' \<rparr>)
      init_server = init_server"
    by blast
  from media_frame_appends_or_is_ignored
    [of "Some ''CA2''" "registerMediaStream (Some ''CA2'') (Some 4) 5 init_server" "Some ''AAAA''"]
    live
  have b: "getMediaStream (Some ''CA2'')
       (on_message (Some ''CA2'') (Some \<lparr> event = Some ''media'', payload = Some ''AAAA'' \<rparr>)
          (registerMediaStream (Some ''CA2'') (Some 4) 5 init_server))
     = Some (\<lparr> websocket = Some 4, startTime = 5, audioBuffer = [] \<rparr>
               \<lparr> audioBuffer := audioBuffer \<lparr> websocket = Some 4, startTime = 5, audioBuffer = [] \<rparr>
                    @ [Some ''AAAA''] \<rparr>)"
    by blast
  from a b show ?thesis by simp
qed

lemma match_media_Some:
  "match_media url = Some callSid
     \<longleftrightarrow> url = ''/media/'' @ callSid \<and> callSid \<noteq> [] \<and> list_all is_alnum callSid"
proof
  assume m: "match_media url = Some callSid"
  then have t: "take 7 url = ''/media/''" and d: "drop 7 url = callSid"
    and ok: "callSid \<noteq> []" "list_all is_alnum callSid"
    by (auto simp: match_media_def split: if_splits)
  have "url = take 7 url @ drop 7 url"
    by simp
  with t d ok show "url = ''/media/'' @ callSid \<and> callSid \<noteq> [] \<and> list_all is_alnum callSid"
    by simp
next
  assume "url = ''/media/'' @ callSid \<and> callSid \<noteq> [] \<and> list_all is_alnum callSid"
  then show "match_media url = Some callSid"
    by (simp add: match_media_def)
qed

lemma match_media_None:
  "match_media url = None
     \<longleftrightarrow> \<not> (\<exists>callSid. url = ''/media/'' @ callSid \<and> callSid \<noteq> [] \<and> list_all is_alnum callSid)"
proof -
  have "match_media url = None \<longleftrightarrow> \<not> (\<exists>callSid. match_media url = Some callSid)"
    by auto
  then show ?thesis
    by (simp only: match_media_Some)
qed

lemma on_connection_registers:
  "getMediaStream c (on_connection c ws now s)
     = Some \<lparr> websocket = Some ws, startTime = now, audioBuffer = [] \<rparr>"
  by (simp add: on_connection_def registerMediaStream_def getMediaStream_def Let_def update_conv')

subsection \<open>C9: routing of upgrade requests\<close>

text \<open>
  C9. An upgrade request is accepted if and only if its URL is \<open>/media/\<close> followed by a
  non-empty identifier made of letters and digits only. An accepted request is handed to
  the connection handler under that identifier, which registers a session for it on the
  new connection. Every other request has its socket destroyed, and the registry, the
  messages sent and the record store are left as they were.
\<close>

theorem upgrade_routing:
  "(match_media url \<noteq> None
      \<longleftrightarrow> (\<exists>callSid. url = ''/media/'' @ callSid \<and> callSid \<noteq> [] \<and> list_all is_alnum callSid))
   \<and> (\<forall>callSid. url = ''/media/'' @ callSid \<and> callSid \<noteq> [] \<and> list_all is_alnum callSid \<longrightarrow>
         on_upgrade url socket now s = on_connection (Some callSid) socket now s
         \<and> getMediaStream (Some callSid) (on_upgrade url socket now s)
             = Some \<lparr> websocket = Some socket, startTime = now, audioBuffer = [] \<rparr>
         \<and> destroyedSockets (on_upgrade url socket now s) = destroyedSockets s)
   \<and> (\<not> (\<exists>callSid. url = ''/media/'' @ callSid \<and> callSid \<noteq> [] \<and> list_all is_alnum callSid) \<longrightarrow>
         on_upgrade url socket now s = s\<lparr> destroyedSockets := destroyedSockets s @ [socket] \<rparr>
         \<and> mediaStreams (on_upgrade url socket now s) = mediaStreams s
         \<and> sentMessages (on_upgrade url socket now s) = sentMessages s
         \<and> callSessions (on_upgrade url socket now s) = callSessions s)"
proof (intro conjI allI impI)
  show "match_media url \<noteq> None
      \<longleftrightarrow> (\<exists>callSid. url = ''/media/'' @ callSid \<and> callSid \<noteq> [] \<and> list_all is_alnum callSid)"
    by (simp only: match_media_None not_not)
next
  fix callSid
  assume a: "url = ''/media/'' @ callSid \<and> callSid \<noteq> [] \<and> list_all is_alnum callSid"
  then have m: "match_media url = Some callSid"
    by (rule iffD2 [OF match_media_Some])
  then show u: "on_upgrade url socket now s = on_connection (Some callSid) socket now s"
    by (simp add: on_upgrade_def)
  show "getMediaStream (Some callSid) (on_upgrade url socket now s)
      = Some \<lparr> websocket = Some socket, startTime = now, audioBuffer = [] \<rparr>"
    by (simp only: u on_connection_registers)
  show "destroyedSockets (on_upgrade url socket now s) = destroyedSockets s"
    by (simp add: u on_connection_def registerMediaStream_def Let_def console_log_def)
next
  assume "\<not> (\<exists>callSid. url = ''/media/'' @ callSid \<and> callSid \<noteq> [] \<and> list_all is_alnum callSid)"
  then have m: "match_media url = None"
    by (rule iffD2 [OF match_media_None])
  then show u: "on_upgrade url socket now s = s\<lparr> destroyedSockets := destroyedSockets s @ [socket] \<rparr>"
    by (simp add: on_upgrade_def)
  show "mediaStreams (on_upgrade url socket now s) = mediaStreams s"
    by (simp add: u)
  show "sentMessages (on_upgrade url socket now s) = sentMessages s"
    by (simp add: u)
  show "callSessions (on_upgrade url socket now s) = callSessions s"
    by (simp add: u)
qed

theorem upgrade_routing_witness:
  "on_upgrade ''/media/CA1'' 4 5 init_server = on_connection (Some ''CA1'') 4 5 init_server
   \<and> on_upgrade ''/media/CA-1'' 4 5 init_server = init_server\<lparr> destroyedSockets := [4] \<rparr>
   \<and> on_upgrade ''/media/'' 4 5 init_server = init_server\<lparr> destroyedSockets := [4] \<rparr>
   \<and> on_upgrade ''/media/CA1?x=1'' 4 5 init_server = init_server\<lparr> destroyedSockets := [4] \<rparr>
   \<and> on_upgrade ''/voice/CA1'' 4 5 init_server = init_server\<lparr> destroyedSockets := [4] \<rparr>"
proof -
  have d: "destroyedSockets init_server = []"
    by (simp add: init_server_def)
  have ok: "''/media/CA1'' = ''/media/'' @ ''CA1'' \<and> ''CA1'' \<noteq> [] \<and> list_all is_alnum ''CA1''"
    by (simp add: is_alnum_def alnum_chars_def)
  have bad1: "\<not> (\<exists>callSid. ''/media/CA-1'' = ''/media/'' @ callSid \<and> callSid \<noteq> []
      \<and> list_all is_alnum callSid)"
    by (auto simp: is_alnum_def alnum_chars_def)
  have bad2: "\<not> (\<exists>callSid. ''/media/'' = ''/media/'' @ callSid \<and> callSid \<noteq> []
      \<and> list_all is_alnum callSid)"
    by auto
  have bad3: "\<not> (\<exists>callSid. ''/media/CA1?x=1'' = ''/media/'' @ callSid \<and> callSid \<noteq> []
      \<and> list_all is_alnum callSid)"
    by (auto simp: is_alnum_def alnum_chars_def)
  have bad4: "\<not> (\<exists>callSid. ''/voice/CA1'' = ''/media/'' @ callSid \<and> callSid \<noteq> []
      \<and> list_all is_alnum callSid)"
    by auto
  from upgrade_routing [of "''/media/CA1''" 4 5 init_server] ok
  have a: "on_upgrade ''/media/CA1'' 4 5 init_server = on_connection (Some ''CA1'') 4 5 init_server"
    by blast
  from upgrade_routing [of "''/media/CA-1''" 4 5 init_server] bad1
  have b: "on_upgrade ''/media/CA-1'' 4 5 init_server
      = init_server\<lparr> destroyedSockets := destroyedSockets init_server @ [4] \<rparr>"
    by blast
  from upgrade_routing [of "''/media/''" 4 5 init_server] bad2
  have c: "on_upgrade ''/media/'' 4 5 init_server
      = init_server\<lparr> destroyedSockets := destroyedSockets init_server @ [4] \<rparr>"
    by blast
  from upgrade_routing [of "''/media/CA1?x=1''" 4 5 init_server] bad3
  have e: "on_upgrade ''/media/CA1?x=1'' 4 5 init_server
      = init_server\<lparr> destroyedSockets := destroyedSockets init_server @ [4] \<rparr>"
    by blast
  from upgrade_routing [of "''/voice/CA1''" 4 5 init_server] bad4
  have f: "on_upgrade ''/voice/CA1'' 4 5 init_server
      = init_server\<lparr> destroyedSockets := destroyedSockets init_server @ [4] \<rparr>"
    by blast
  from a b c e f show ?thesis
    by (simp only: d append_Nil simp_thms)
qed

lemma end_call_text_accepted: "first_refused end_call_twiml = None"
  by (simp add: end_call_twiml_def xml_legal_char_def xml_illegal_chars_def)

lemma toString_say_hangup:
  "toString [Say str v, Hangup]
     = xml_declaration @ ''<Response><Say>'' @ xml_escape str @ ''</Say><Hangup/></Response>''"
  by (simp add: toString_def)

lemma xml_escape_understood:
  "xml_escape (''I understood: '' @ t) = ''I understood: '' @ xml_escape t"
  by (simp add: xml_escape_def xml_escape_char_def)

lemma xml_escape_pressed:
  "xml_escape (''You pressed: '' @ t) = ''You pressed: '' @ xml_escape t"
  by (simp add: xml_escape_def xml_escape_char_def)

lemma xml_escape_no_input:
  "xml_escape ''No input received. Goodbye!'' = ''No input received. Goodbye!''"
  by (simp add: xml_escape_def xml_escape_char_def)

lemma legal_understood:
  "list_all xml_legal_char (''I understood: '' @ t) = list_all xml_legal_char t"
  by (simp add: xml_legal_char_def xml_illegal_chars_def)

lemma legal_pressed:
  "list_all xml_legal_char (''You pressed: '' @ t) = list_all xml_legal_char t"
  by (simp add: xml_legal_char_def xml_illegal_chars_def)

lemma legal_no_input:
  "list_all xml_legal_char ''No input received. Goodbye!''"
  by (simp add: xml_legal_char_def xml_illegal_chars_def)

lemma first_refused_say_hangup:
  "first_refused [Say str v, Hangup]
     = (if list_all xml_legal_char str then None else Some (InvalidCharacter str))"
  by simp

lemma reply_of_document:
  "fst (voice_handle_input c sp d s)
     = (case first_refused (handle_input_twiml sp d) of
          Some err \<Rightarrow> Inl \<lparr> err_status = 500, err_error = ''Internal server error'',
                            err_message = err \<rparr>
        | None \<Rightarrow> Inr \<lparr> status = 200, contentType = Some ''text/xml; charset=utf-8'',
                         body = toString (handle_input_twiml sp d) \<rparr>)"
  by (simp add: voice_handle_input_def error_middleware_def Let_def split: option.splits)

lemma reply_transcript:
  assumes "t \<noteq> []"
  shows "fst (voice_handle_input c (Some t) d s)
     = (if list_all xml_legal_char t
        then Inr \<lparr> status = 200, contentType = Some ''text/xml; charset=utf-8'',
                   body = xml_declaration @ ''<Response><Say>'' @ ''I understood: '' @ xml_escape t
                            @ ''</Say><Hangup/></Response>'' \<rparr>
        else Inl \<lparr> err_status = 500, err_error = ''Internal server error'',
                   err_message = InvalidCharacter (''I understood: '' @ t) \<rparr>)"
proof -
  have doc: "handle_input_twiml (Some t) d = [Say (''I understood: '' @ t) ''Polly.Amy'', Hangup]"
    using assms by (simp add: handle_input_twiml_def)
  show ?thesis
    unfolding reply_of_document doc first_refused_say_hangup legal_understood
      toString_say_hangup xml_escape_understood
    by simp
qed

lemma reply_digits:
  assumes "\<not> truthy sp" "d \<noteq> []"
  shows "fst (voice_handle_input c sp (Some d) s)
     = (if list_all xml_legal_char d
        then Inr \<lparr> status = 200, contentType = Some ''text/xml; charset=utf-8'',
                   body = xml_declaration @ ''<Response><Say>'' @ ''You pressed: '' @ xml_escape d
                            @ ''</Say><Hangup/></Response>'' \<rparr>
        else Inl \<lparr> err_status = 500, err_error = ''Internal server error'',
                   err_message = InvalidCharacter (''You pressed: '' @ d) \<rparr>)"
proof -
  have doc: "handle_input_twiml sp (Some d) = [Say (''You pressed: '' @ d) ''Polly.Amy'', Hangup]"
    using assms by (simp add: handle_input_twiml_def)
  show ?thesis
    unfolding reply_of_document doc first_refused_say_hangup legal_pressed
      toString_say_hangup xml_escape_pressed
    by simp
qed

lemma reply_no_input:
  assumes "\<not> truthy sp" "\<not> truthy d"
  shows "fst (voice_handle_input c sp d s)
     = Inr \<lparr> status = 200, contentType = Some ''text/xml; charset=utf-8'',
             body = xml_declaration @ ''<Response><Say>'' @ ''No input received. Goodbye!''
                      @ ''</Say><Hangup/></Response>'' \<rparr>"
proof -
  have doc: "handle_input_twiml sp d = [Say ''No input received. Goodbye!'' ''Polly.Amy'', Hangup]"
    using assms by (simp add: handle_input_twiml_def)
  show ?thesis
    unfolding reply_of_document doc first_refused_say_hangup toString_say_hangup
      xml_escape_no_input
    using legal_no_input by simp
qed

lemma xml_escape_no_lt: "CHR ''<'' \<notin> set (xml_escape str)"
  by (induction str) (auto simp: xml_escape_def xml_escape_char_def)

lemma decode_escaped_char:
  "xml_legal_char c \<Longrightarrow>
   decode None (xml_escape_char c @ rest) = map_option (Cons c) (decode None rest)"
  by (auto simp: xml_escape_char_def entity_char_def xml_legal_char_def xml_illegal_chars_def)

lemma decode_escaped:
  "list_all xml_legal_char str \<Longrightarrow>
   decode None (xml_escape str @ rest) = map_option ((@) str) (decode None rest)"
proof (induction str)
  case Nil
  then show ?case by (simp add: xml_escape_def option.map_ident)
next
  case (Cons c str)
  then have c: "xml_legal_char c" and IH: "decode None (xml_escape str @ rest)
      = map_option ((@) str) (decode None rest)"
    by simp_all
  have "decode None (xml_escape (c # str) @ rest)
      = decode None (xml_escape_char c @ (xml_escape str @ rest))"
    by (simp add: xml_escape_def)
  also have "\<dots> = map_option (Cons c) (decode None (xml_escape str @ rest))"
    by (rule decode_escaped_char [OF c])
  also have "\<dots> = map_option ((@) (c # str)) (decode None rest)"
    by (cases "decode None rest") (simp_all add: IH)
  finally show ?case .
qed

lemma decode_xml_escape:
  "list_all xml_legal_char str \<Longrightarrow> decode None (xml_escape str) = Some str"
  using decode_escaped [of str "[]"] by simp

lemma tokenize_chars:
  "CHR ''<'' \<notin> set xs \<Longrightarrow> tokenize False buf (xs @ rest) = tokenize False (buf @ xs) rest"
  by (induction xs arbitrary: buf) auto

lemma tokens_of_say_hangup:
  assumes "CHR ''<'' \<notin> set x" "x \<noteq> []"
  shows "tokenize False [] (xml_declaration @ ''<Response><Say>'' @ x
            @ ''</Say><Hangup/></Response>'')
     = Some [Tag (''?xml version='' @ [CHR 0x22] @ ''1.0'' @ [CHR 0x22]
                    @ '' encoding='' @ [CHR 0x22] @ ''UTF-8'' @ [CHR 0x22] @ ''?''),
             Tag ''Response'', Tag ''Say'', Chars x, Tag ''/Say'',
             Tag ''Hangup/'', Tag ''/Response'']"
  using assms by (simp add: xml_declaration_def tokenize_chars emit_def)

lemma read_say_hangup:
  "decode None x = Some y \<Longrightarrow>
   read_elements [Tag ''Say'', Chars x, Tag ''/Say'', Tag ''Hangup/'', Tag ''/Response'']
     = Some [SayElement y, HangupElement]"
  by simp

lemma read_back:
  assumes "CHR ''<'' \<notin> set x" "x \<noteq> []" "decode None x = Some y"
  shows "read_document (xml_declaration @ ''<Response><Say>'' @ x @ ''</Say><Hangup/></Response>'')
     = Some [SayElement y, HangupElement]"
  unfolding read_document_def tokens_of_say_hangup [OF assms(1,2)]
  using read_say_hangup [OF assms(3)] by simp

lemma decode_understood:
  "list_all xml_legal_char t \<Longrightarrow>
   decode None (''I understood: '' @ xml_escape t) = Some (''I understood: '' @ t)"
  by (simp add: decode_xml_escape xml_legal_char_def xml_illegal_chars_def)

lemma read_back_understood:
  assumes "list_all xml_legal_char t"
  shows "read_document (xml_declaration @ ''<Response><Say>'' @ ''I understood: '' @ xml_escape t
            @ ''</Say><Hangup/></Response>'')
     = Some [SayElement (''I understood: '' @ t), HangupElement]"
proof -
  have lt: "CHR ''<'' \<notin> set (''I understood: '' @ xml_escape t)"
    using xml_escape_no_lt [of t] by simp
  have ne: "''I understood: '' @ xml_escape t \<noteq> []"
    by simp
  from read_back [OF lt ne decode_understood [OF assms]] show ?thesis
    by (simp only: append_assoc)
qed


lemma reader_refuses_raw_markup:
  "read_document (xml_declaration @ ''<Response><Say>a<b</Say><Hangup/></Response>'') = None
   \<and> read_document (xml_declaration @ ''<Response><Say>a & b</Say><Hangup/></Response>'') = None"
  by (simp add: read_document_def xml_declaration_def emit_def entity_char_def
      xml_legal_char_def xml_illegal_chars_def)

subsection \<open>C4: the three branches of the input handler\<close>

text \<open>
  C4, as stated, does not hold, in two ways. The handler tests the truthiness of the
  fields, not their presence: with a transcript field that is present and empty, the
  document acknowledges the digits when there are some, and otherwise is the no-input
  utterance. And not every response issues a hangup: a transcript with a character that
  XML forbids (here the bell character) makes the library throw, and the reply is the
  500 JSON answer of the error handler.
\<close>

theorem handle_input_present_empty_transcript:
  "handle_input_twiml (Some []) (Some ''5'') = [Say ''You pressed: 5'' ''Polly.Amy'', Hangup]
   \<and> handle_input_twiml (Some []) None = [Say ''No input received. Goodbye!'' ''Polly.Amy'', Hangup]
   \<and> fst (voice_handle_input (Some ''CA1'') (Some [CHR ''h'', CHR ''i'', CHR 0x07]) None init_server)
       = Inl \<lparr> err_status = 500, err_error = ''Internal server error'',
               err_message = InvalidCharacter (''I understood: '' @ [CHR ''h'', CHR ''i'', CHR 0x07]) \<rparr>"
  by (simp add: handle_input_twiml_def voice_handle_input_def error_middleware_def Let_def
      xml_legal_char_def xml_illegal_chars_def)

text \<open>
  C4, amended. For every input-received event: if the transcript field is present and
  non-empty the handler builds the acknowledgment of the transcript; else if the digits
  field is present and non-empty, the acknowledgment of the digits; else the no-input
  utterance; in all three branches the document ends with the hangup directive. When the
  acknowledged text holds only characters that XML allows (as the no-input utterance
  always does), the response has status 200, an XML content type and the document, with
  its hangup directive, as body. When it holds a character that XML forbids, the response
  is the error handler's 500 JSON reply and no document is sent.
\<close>

theorem handle_input_branches:
  "(\<forall>t. SpeechResult = Some t \<and> t \<noteq> [] \<longrightarrow>
        handle_input_twiml SpeechResult Digits = [Say (''I understood: '' @ t) ''Polly.Amy'', Hangup]
        \<and> (list_all xml_legal_char t \<longrightarrow>
             fst (voice_handle_input CallSid SpeechResult Digits s)
               = Inr \<lparr> status = 200, contentType = Some ''text/xml; charset=utf-8'',
                       body = xml_declaration @ ''<Response><Say>'' @ ''I understood: ''
                                @ xml_escape t @ ''</Say><Hangup/></Response>'' \<rparr>)
        \<and> (\<not> list_all xml_legal_char t \<longrightarrow>
             fst (voice_handle_input CallSid SpeechResult Digits s)
               = Inl \<lparr> err_status = 500, err_error = ''Internal server error'',
                       err_message = InvalidCharacter (''I understood: '' @ t) \<rparr>))
   \<and> (\<forall>d. (SpeechResult = None \<or> SpeechResult = Some []) \<and> Digits = Some d \<and> d \<noteq> [] \<longrightarrow>
        handle_input_twiml SpeechResult Digits = [Say (''You pressed: '' @ d) ''Polly.Amy'', Hangup]
        \<and> (list_all xml_legal_char d \<longrightarrow>
             fst (voice_handle_input CallSid SpeechResult Digits s)
               = Inr \<lparr> status = 200, contentType = Some ''text/xml; charset=utf-8'',
                       body = xml_declaration @ ''<Response><Say>'' @ ''You pressed: ''
                                @ xml_escape d @ ''</Say><Hangup/></Response>'' \<rparr>)
        \<and> (\<not> list_all xml_legal_char d \<longrightarrow>
             fst (voice_handle_input CallSid SpeechResult Digits s)
               = Inl \<lparr> err_status = 500, err_error = ''Internal server error'',
                       err_message = InvalidCharacter (''You pressed: '' @ d) \<rparr>))
   \<and> ((SpeechResult = None \<or> SpeechResult = Some []) \<and> (Digits = None \<or> Digits = Some []) \<longrightarrow>
        handle_input_twiml SpeechResult Digits = [Say ''No input received. Goodbye!'' ''Polly.Amy'', Hangup]
        \<and> fst (voice_handle_input CallSid SpeechResult Digits s)
             = Inr \<lparr> status = 200, contentType = Some ''text/xml; charset=utf-8'',
                     body = xml_declaration @ ''<Response><Say>'' @ ''No input received. Goodbye!''
                              @ ''</Say><Hangup/></Response>'' \<rparr>)
   \<and> last (handle_input_twiml SpeechResult Digits) = Hangup"
proof (intro conjI allI impI)
  fix t
  assume a: "SpeechResult = Some t \<and> t \<noteq> []"
  then show "handle_input_twiml SpeechResult Digits
      = [Say (''I understood: '' @ t) ''Polly.Amy'', Hangup]"
    by (simp add: handle_input_twiml_def)
  from a have r: "fst (voice_handle_input CallSid SpeechResult Digits s)
     = (if list_all xml_legal_char t
        then Inr \<lparr> status = 200, contentType = Some ''text/xml; charset=utf-8'',
                   body = xml_declaration @ ''<Response><Say>'' @ ''I understood: '' @ xml_escape t
                            @ ''</Say><Hangup/></Response>'' \<rparr>
        else Inl \<lparr> err_status = 500, err_error = ''Internal server error'',
                   err_message = InvalidCharacter (''I understood: '' @ t) \<rparr>)"
    using reply_transcript [of t CallSid Digits s] by blast
  {
    assume "list_all xml_legal_char t"
    with r show "fst (voice_handle_input CallSid SpeechResult Digits s)
        = Inr \<lparr> status = 200, contentType = Some ''text/xml; charset=utf-8'',
                body = xml_declaration @ ''<Response><Say>'' @ ''I understood: ''
                         @ xml_escape t @ ''</Say><Hangup/></Response>'' \<rparr>"
      by (simp only: if_True)
  next
    assume "\<not> list_all xml_legal_char t"
    with r show "fst (voice_handle_input CallSid SpeechResult Digits s)
        = Inl \<lparr> err_status = 500, err_error = ''Internal server error'',
                err_message = InvalidCharacter (''I understood: '' @ t) \<rparr>"
      by (simp only: if_False)
  }
next
  fix d
  assume a: "(SpeechResult = None \<or> SpeechResult = Some []) \<and> Digits = Some d \<and> d \<noteq> []"
  then have f: "\<not> truthy SpeechResult" and D: "Digits = Some d" and ne: "d \<noteq> []"
    by auto
  from f D ne show "handle_input_twiml SpeechResult Digits
      = [Say (''You pressed: '' @ d) ''Polly.Amy'', Hangup]"
    by (simp add: handle_input_twiml_def)
  have r: "fst (voice_handle_input CallSid SpeechResult Digits s)
     = (if list_all xml_legal_char d
        then Inr \<lparr> status = 200, contentType = Some ''text/xml; charset=utf-8'',
                   body = xml_declaration @ ''<Response><Say>'' @ ''You pressed: '' @ xml_escape d
                            @ ''</Say><Hangup/></Response>'' \<rparr>
        else Inl \<lparr> err_status = 500, err_error = ''Internal server error'',
                   err_message = InvalidCharacter (''You pressed: '' @ d) \<rparr>)"
    unfolding D by (rule reply_digits [OF f ne])
  {
    assume "list_all xml_legal_char d"
    with r show "fst (voice_handle_input CallSid SpeechResult Digits s)
        = Inr \<lparr> status = 200, contentType = Some ''text/xml; charset=utf-8'',
                body = xml_declaration @ ''<Response><Say>'' @ ''You pressed: ''
                         @ xml_escape d @ ''</Say><Hangup/></Response>'' \<rparr>"
      by (simp only: if_True)
  next
    assume "\<not> list_all xml_legal_char d"
    with r show "fst (voice_handle_input CallSid SpeechResult Digits s)
        = Inl \<lparr> err_status = 500, err_error = ''Internal server error'',
                err_message = InvalidCharacter (''You pressed: '' @ d) \<rparr>"
      by (simp only: if_False)
  }
next
  assume a: "(SpeechResult = None \<or> SpeechResult = Some []) \<and> (Digits = None \<or> Digits = Some [])"
  then have f: "\<not> truthy SpeechResult" "\<not> truthy Digits"
    by auto
  then show "handle_input_twiml SpeechResult Digits
      = [Say ''No input received. Goodbye!'' ''Polly.Amy'', Hangup]"
    by (simp add: handle_input_twiml_def)
  from f show "fst (voice_handle_input CallSid SpeechResult Digits s)
      = Inr \<lparr> status = 200, contentType = Some ''text/xml; charset=utf-8'',
              body = xml_declaration @ ''<Response><Say>'' @ ''No input received. Goodbye!''
                       @ ''</Say><Hangup/></Response>'' \<rparr>"
    by (rule reply_no_input)
next
  show "last (handle_input_twiml SpeechResult Digits) = Hangup"
    by (simp add: handle_input_twiml_def)
qed

theorem handle_input_branches_witness:
  "handle_input_twiml (Some ''hello'') (Some ''5'') = [Say ''I understood: hello'' ''Polly.Amy'', Hangup]
   \<and> fst (voice_handle_input (Some ''CA1'') (Some ''hello'') (Some ''5'') init_server)
       = Inr \<lparr> status = 200, contentType = Some ''text/xml; charset=utf-8'',
               body = xml_declaration @ ''<Response><Say>I understood: hello</Say><Hangup/></Response>'' \<rparr>"
proof -
  have legal: "list_all xml_legal_char ''hello''"
    by (simp add: xml_legal_char_def xml_illegal_chars_def)
  have esc: "xml_escape ''hello'' = ''hello''"
    by (simp add: xml_escape_def xml_escape_char_def)
  have pre: "Some ''hello'' = Some ''hello'' \<and> ''hello'' \<noteq> []"
    by simp
  from handle_input_branches [of "Some ''hello''" "Some ''5''" "Some ''CA1''" init_server]
  have "\<forall>t. Some ''hello'' = Some t \<and> t \<noteq> [] \<longrightarrow>
        handle_input_twiml (Some ''hello'') (Some ''5'')
          = [Say (''I understood: '' @ t) ''Polly.Amy'', Hangup]
        \<and> (list_all xml_legal_char t \<longrightarrow>
             fst (voice_handle_input (Some ''CA1'') (Some ''hello'') (Some ''5'') init_server)
               = Inr \<lparr> status = 200, contentType = Some ''text/xml; charset=utf-8'',
                       body = xml_declaration @ ''<Response><Say>'' @ ''I understood: ''
                                @ xml_escape t @ ''</Say><Hangup/></Response>'' \<rparr>)
        \<and> (\<not> list_all xml_legal_char t \<longrightarrow>
             fst (voice_handle_input (Some ''CA1'') (Some ''hello'') (Some ''5'') init_server)
               = Inl \<lparr> err_status = 500, err_error = ''Internal server error'',
                       err_message = InvalidCharacter (''I understood: '' @ t) \<rparr>)"
    by (rule conjunct1)
  from this [rule_format, OF pre] legal
  have "handle_input_twiml (Some ''hello'') (Some ''5'')
          = [Say (''I understood: '' @ ''hello'') ''Polly.Amy'', Hangup]"
    and "fst (voice_handle_input (Some ''CA1'') (Some ''hello'') (Some ''5'') init_server)
               = Inr \<lparr> status = 200, contentType = Some ''text/xml; charset=utf-8'',
                       body = xml_declaration @ ''<Response><Say>'' @ ''I understood: ''
                                @ xml_escape ''hello'' @ ''</Say><Hangup/></Response>'' \<rparr>"
    by blast+
  then show ?thesis
    by (simp add: esc)
qed

subsection \<open>C6: the echoed transcript is escaped\<close>

text \<open>
  C6, as stated, does not hold for every transcript: a transcript with a character that
  XML forbids (here the control character 1 between \<open>a\<close> and \<open>b\<close>) is refused by the
  library, and the event is answered with the 500 JSON reply of the error handler: no
  document, no acknowledgment, no disconnect directive.
\<close>

theorem forbidden_character_gets_error_reply:
  "fst (voice_handle_input (Some ''CA1'') (Some [CHR ''a'', CHR 0x01, CHR ''b'']) None init_server)
     = Inl \<lparr> err_status = 500, err_error = ''Internal server error'',
             err_message = InvalidCharacter (''I understood: '' @ [CHR ''a'', CHR 0x01, CHR ''b'']) \<rparr>"
  by (simp add: handle_input_twiml_def voice_handle_input_def error_middleware_def Let_def
      xml_legal_char_def xml_illegal_chars_def)

text \<open>
  C6, amended. For every input-received event carrying a non-empty transcript \<open>t\<close> made
  of characters that XML allows, the response is the 200 document whose \<open>Say\<close> element
  holds the acknowledgment followed by \<open>t\<close> escaped, and whose last element is the
  disconnect directive. The escaping is right and the document well-formed: the document
  reads back as a \<open>Say\<close> element whose text is the acknowledgment followed by \<open>t\<close>
  itself, then a \<open>Hangup\<close> element, whatever reserved characters (\<open><\<close>, \<open>>\<close>, \<open>&\<close>,
  quotes) \<open>t\<close> holds; the escaped transcript decodes to \<open>t\<close> and holds no \<open><\<close>. A
  non-empty transcript with a character that XML forbids gets the 500 JSON reply of the
  error handler instead of a document.
\<close>

theorem transcript_is_escaped:
  assumes "t \<noteq> []"
  shows "(list_all xml_legal_char t \<longrightarrow>
            fst (voice_handle_input c (Some t) d s)
              = Inr \<lparr> status = 200, contentType = Some ''text/xml; charset=utf-8'',
                      body = xml_declaration @ ''<Response><Say>'' @ ''I understood: ''
                               @ xml_escape t @ ''</Say><Hangup/></Response>'' \<rparr>
            \<and> read_document (xml_declaration @ ''<Response><Say>'' @ ''I understood: ''
                               @ xml_escape t @ ''</Say><Hangup/></Response>'')
                = Some [SayElement (''I understood: '' @ t), HangupElement]
            \<and> decode None (xml_escape t) = Some t
            \<and> CHR ''<'' \<notin> set (xml_escape t))
       \<and> (\<not> list_all xml_legal_char t \<longrightarrow>
            fst (voice_handle_input c (Some t) d s)
              = Inl \<lparr> err_status = 500, err_error = ''Internal server error'',
                      err_message = InvalidCharacter (''I understood: '' @ t) \<rparr>)"
proof (intro conjI impI)
  assume legal: "list_all xml_legal_char t"
  with reply_transcript [OF assms, of c d s]
  show "fst (voice_handle_input c (Some t) d s)
      = Inr \<lparr> status = 200, contentType = Some ''text/xml; charset=utf-8'',
              body = xml_declaration @ ''<Response><Say>'' @ ''I understood: ''
                       @ xml_escape t @ ''</Say><Hangup/></Response>'' \<rparr>"
    by (simp only: if_True)
  from legal show "read_document (xml_declaration @ ''<Response><Say>'' @ ''I understood: ''
        @ xml_escape t @ ''</Say><Hangup/></Response>'')
      = Some [SayElement (''I understood: '' @ t), HangupElement]"
    by (rule read_back_understood)
  from legal show "decode None (xml_escape t) = Some t"
    by (rule decode_xml_escape)
  show "CHR ''<'' \<notin> set (xml_escape t)"
    by (rule xml_escape_no_lt)
next
  assume "\<not> list_all xml_legal_char t"
  with reply_transcript [OF assms, of c d s]
  show "fst (voice_handle_input c (Some t) d s)
      = Inl \<lparr> err_status = 500, err_error = ''Internal server error'',
              err_message = InvalidCharacter (''I understood: '' @ t) \<rparr>"
    by (simp only: if_False)
qed

theorem transcript_is_escaped_witness:
  "fst (voice_handle_input (Some ''CA1'') (Some (''Tom & Jerry <3 '' @ [CHR 0x22])) None init_server)
     = Inr \<lparr> status = 200, contentType = Some ''text/xml; charset=utf-8'',
             body = xml_declaration @ ''<Response><Say>'' @ ''I understood: ''
                      @ (''Tom &amp; Jerry &lt;3 '' @ [CHR 0x22]) @ ''</Say><Hangup/></Response>'' \<rparr>
   \<and> read_document (xml_declaration @ ''<Response><Say>'' @ ''I understood: ''
                      @ (''Tom &amp; Jerry &lt;3 '' @ [CHR 0x22]) @ ''</Say><Hangup/></Response>'')
       = Some [SayElement (''I understood: '' @ (''Tom & Jerry <3 '' @ [CHR 0x22])), HangupElement]"
proof -
  have ne: "''Tom & Jerry <3 '' @ [CHR 0x22] \<noteq> []"
    by simp
  have legal: "list_all xml_legal_char (''Tom & Jerry <3 '' @ [CHR 0x22])"
    by (simp add: xml_legal_char_def xml_illegal_chars_def)
  have esc: "xml_escape (''Tom & Jerry <3 '' @ [CHR 0x22]) = ''Tom &amp; Jerry &lt;3 '' @ [CHR 0x22]"
    by (simp add: xml_escape_def xml_escape_char_def)
  from transcript_is_escaped [OF ne, of "Some ''CA1''" None init_server] legal
  have "fst (voice_handle_input (Some ''CA1'') (Some (''Tom & Jerry <3 '' @ [CHR 0x22])) None
          init_server)
     = Inr \<lparr> status = 200, contentType = Some ''text/xml; charset=utf-8'',
             body = xml_declaration @ ''<Response><Say>'' @ ''I understood: ''
                      @ xml_escape (''Tom & Jerry <3 '' @ [CHR 0x22])
                      @ ''</Say><Hangup/></Response>'' \<rparr>"
    and "read_document (xml_declaration @ ''<Response><Say>'' @ ''I understood: ''
                      @ xml_escape (''Tom & Jerry <3 '' @ [CHR 0x22])
                      @ ''</Say><Hangup/></Response>'')
       = Some [SayElement (''I understood: '' @ (''Tom & Jerry <3 '' @ [CHR 0x22])), HangupElement]"
    by blast+
  then show ?thesis
    unfolding esc by (intro conjI)
qed

end
